theory Spec2Isabelle
  imports Main "HOL-Library.Word"
begin

section \<open>The Sony live-view helper: data model\<close>

text \<open>
  The repository holds two builds of one C ABI: \<^verbatim>\<open>SonySDKHelperSimple.cpp\<close>, which mirrors
  the vendor's image data block in a class of its own and binds the vendor library at run
  time, and \<^verbatim>\<open>SonySDKHelper.cpp\<close>, which links against the vendor SDK and uses the vendor's
  own class. The first is embedded under the source's names; the second under the same names
  with the suffix \<open>_sdk\<close>.

  Pointers are 64-bit words and \<open>0\<close> is the null pointer. \<open>CrInt32u\<close>, \<open>CrInt8u\<close> and
  \<open>CrError\<close> are the source's typedefs (\<open>CrError\<close> is \<open>int32_t\<close>; the word holds its bit
  pattern).
\<close>

type_synonym addr = "64 word"
type_synonym CrInt32u = "32 word"
type_synonym CrInt8u = "8 word"
type_synonym CrError = "32 word"

text \<open>\<^verbatim>\<open>class ImageDataBlockWrapper\<close>: five public fields, in the source's order.\<close>

record ImageDataBlockWrapper =
  frameNo :: CrInt32u
  size' :: CrInt32u
  pData :: addr
  imageSize :: CrInt32u
  timeCode :: CrInt32u

text \<open>
  The constructor
  \<^verbatim>\<open>ImageDataBlockWrapper() : frameNo(0), size(0), pData(nullptr), imageSize(0), timeCode(0) {}\<close>.
\<close>

definition ImageDataBlockWrapper_ctor :: ImageDataBlockWrapper where
  "ImageDataBlockWrapper_ctor =
     \<lparr>frameNo = 0, size' = 0, pData = 0, imageSize = 0, timeCode = 0\<rparr>"

text \<open>
  What a call can do besides returning: \<^verbatim>\<open>new\<close> throws \<^verbatim>\<open>std::bad_alloc\<close> when the
  allocation fails, and a \<^verbatim>\<open>static_cast\<close> followed by a member access or a \<^verbatim>\<open>delete\<close>
  on a non-null pointer that designates no live block is undefined behaviour.
\<close>

datatype fault = bad_alloc | invalid_pointer

text \<open>
  The calls that leave the translation unit are logged in the order the code makes them,
  each with its arguments and the value it returned: the platform loader, the symbol
  lookup, and the vendor's live-view routine (with the function pointer called).
\<close>

datatype event =
    EvLoadLibraryA string addr
  | EvGetProcAddress addr string addr
  | EvGetLiveViewImage addr addr addr

text \<open>
  The memory a process sees: the live image data blocks by address, the bytes of the
  host's buffers, and the log. It is polymorphic in the class of the blocks.
\<close>

record 'b process =
  blocks :: "addr \<rightharpoonup> 'b"
  mem :: "addr \<Rightarrow> CrInt8u"
  trace :: "event list"

text \<open>
  The file-scope statics of \<^verbatim>\<open>SonySDKHelperSimple.cpp\<close> that the code reads or writes:
  \<^verbatim>\<open>static HMODULE hSonyDll = NULL;\<close> and
  \<^verbatim>\<open>static GetLiveViewImageFunc pGetLiveViewImage = NULL;\<close>. The other six statics
  (\<^verbatim>\<open>pCreateImageDataBlock\<close> ... \<^verbatim>\<open>pGetImageData\<close>) are never mentioned again in the
  file and are left out.
\<close>

record state = "ImageDataBlockWrapper process" +
  hSonyDll :: addr
  pGetLiveViewImage :: addr

text \<open>
  The vendor's routine reads and writes the blocks and the buffers and returns a
  \<open>CrError\<close>; it has no access to the statics of this file. The platform of one call: what \<^verbatim>\<open>LoadLibraryA\<close> and \<^verbatim>\<open>GetProcAddress\<close>
  return (\<open>0\<close> on failure) and the routine that a function pointer designates. It is an
  argument of every fetch, so it may change between two calls (the host installs the
  library).
\<close>

type_synonym 'b vendor_routine =
  "addr \<Rightarrow> addr \<Rightarrow> (addr \<rightharpoonup> 'b) \<times> (addr \<Rightarrow> CrInt8u) \<Rightarrow> CrError \<times> (addr \<rightharpoonup> 'b) \<times> (addr \<Rightarrow> CrInt8u)"

record platform =
  LoadLibraryA :: "string \<Rightarrow> addr"
  GetProcAddress :: "addr \<Rightarrow> string \<Rightarrow> addr"
  code_at :: "addr \<Rightarrow> ImageDataBlockWrapper vendor_routine"

text \<open>
  \<^verbatim>\<open>memcpy(dest, src, n)\<close> on an address space \<open>m\<close> that gives every address its byte: the
  \<open>n\<close> bytes at \<open>dest\<close> become the \<open>n\<close> bytes that were at \<open>src\<close>; every other byte
  keeps its value. The bytes are read from the memory before the call (the C standard
  leaves overlapping ranges undefined).
\<close>

definition memcpy :: "(addr \<Rightarrow> CrInt8u) \<Rightarrow> addr \<Rightarrow> addr \<Rightarrow> nat \<Rightarrow> (addr \<Rightarrow> CrInt8u)" where
  "memcpy m dest src n = (\<lambda>a. if unat (a - dest) < n then m (src + (a - dest)) else m a)"

text \<open>
  The blocks live in the same address space as the buffers, so a copy whose source or
  destination points into a live block reads or overwrites the bytes of its fields. An
  object of \<open>sz\<close> bytes at address \<open>h\<close> occupies \<open>h\<close> ... \<open>h + sz - 1\<close>; \<open>enc b i\<close> is byte
  \<open>i\<close> of the object \<open>b\<close> and \<open>dec\<close> builds the object from its bytes.

  \<open>block_at\<close> finds the live block that an address belongs to, \<open>byte_at\<close> is the byte the
  process sees at an address (a field's byte inside a block, the buffer's byte elsewhere),
  and \<open>memcpy_heap\<close> is \<open>memcpy\<close> on that address space: a block that has a byte in the
  destination range is rebuilt from its bytes after the copy, every other block is as it
  was, and so are the bytes of \<open>mem\<close> that a block covers. \<open>outside_blocks\<close> says that no
  byte of a range of \<open>n\<close> addresses belongs to a live block.
\<close>

definition block_at :: "nat \<Rightarrow> (addr \<rightharpoonup> 'b) \<Rightarrow> addr \<Rightarrow> addr option" where
  "block_at sz bs a = find (\<lambda>h. bs h \<noteq> None) (map (\<lambda>i. a - of_nat i) [0..<sz])"

definition byte_at ::
  "nat \<Rightarrow> ('b \<Rightarrow> nat \<Rightarrow> CrInt8u) \<Rightarrow> (addr \<rightharpoonup> 'b) \<Rightarrow> (addr \<Rightarrow> CrInt8u) \<Rightarrow> addr \<Rightarrow> CrInt8u" where
  "byte_at sz enc bs m a =
     (case block_at sz bs a of
        None \<Rightarrow> m a
      | Some h \<Rightarrow> (case bs h of None \<Rightarrow> m a | Some b \<Rightarrow> enc b (unat (a - h))))"

definition memcpy_heap ::
  "nat \<Rightarrow> ('b \<Rightarrow> nat \<Rightarrow> CrInt8u) \<Rightarrow> ((nat \<Rightarrow> CrInt8u) \<Rightarrow> 'b) \<Rightarrow>
   (addr \<rightharpoonup> 'b) \<times> (addr \<Rightarrow> CrInt8u) \<Rightarrow> addr \<Rightarrow> addr \<Rightarrow> nat \<Rightarrow>
   (addr \<rightharpoonup> 'b) \<times> (addr \<Rightarrow> CrInt8u)" where
  "memcpy_heap sz enc dec hm dest src n =
     (let bs = fst hm; m = snd hm;
          after = memcpy (byte_at sz enc bs m) dest src n
      in (\<lambda>h. case bs h of
                None \<Rightarrow> None
              | Some b \<Rightarrow>
                  Some (if list_ex (\<lambda>i. unat (h + of_nat i - dest) < n) [0..<sz]
                        then dec (\<lambda>i. after (h + of_nat i)) else b),
          \<lambda>a. if block_at sz bs a = None then after a else m a))"

definition outside_blocks :: "nat \<Rightarrow> (addr \<rightharpoonup> 'b) \<Rightarrow> addr \<Rightarrow> nat \<Rightarrow> bool" where
  "outside_blocks sz bs a n = list_all (\<lambda>i. block_at sz bs (a + of_nat i) = None) [0..<n]"

text \<open>
  The object representation of \<^verbatim>\<open>ImageDataBlockWrapper\<close> under the 64-bit Windows ABI
  (little-endian; \<open>CrInt32u\<close> is 4 bytes, a pointer 8 bytes and 8-aligned): \<open>frameNo\<close> at
  offset 0, \<open>size\<close> at 4, \<open>pData\<close> at 8, \<open>imageSize\<close> at 16, \<open>timeCode\<close> at 20, 24 bytes
  and no padding.
\<close>

definition byte_of :: "'a::len word \<Rightarrow> nat \<Rightarrow> CrInt8u" where
  "byte_of x k = ucast (drop_bit (8 * k) x)"

fun word_of_bytes :: "CrInt8u list \<Rightarrow> 'a::len word" where
  "word_of_bytes [] = 0"
| "word_of_bytes (b # bs) = ucast b + 256 * word_of_bytes bs"

definition sizeof_ImageDataBlockWrapper :: nat where
  "sizeof_ImageDataBlockWrapper = 24"

definition ImageDataBlockWrapper_bytes :: "ImageDataBlockWrapper \<Rightarrow> nat \<Rightarrow> CrInt8u" where
  "ImageDataBlockWrapper_bytes w i =
     (if i < 4 then byte_of (frameNo w) i
      else if i < 8 then byte_of (size' w) (i - 4)
      else if i < 16 then byte_of (pData w) (i - 8)
      else if i < 20 then byte_of (imageSize w) (i - 16)
      else byte_of (timeCode w) (i - 20))"

definition ImageDataBlockWrapper_of_bytes :: "(nat \<Rightarrow> CrInt8u) \<Rightarrow> ImageDataBlockWrapper" where
  "ImageDataBlockWrapper_of_bytes f =
     \<lparr>frameNo = word_of_bytes [f 0, f 1, f 2, f 3],
      size' = word_of_bytes [f 4, f 5, f 6, f 7],
      pData = word_of_bytes [f 8, f 9, f 10, f 11, f 12, f 13, f 14, f 15],
      imageSize = word_of_bytes [f 16, f 17, f 18, f 19],
      timeCode = word_of_bytes [f 20, f 21, f 22, f 23]\<rparr>"

section \<open>SonySDKHelperSimple.cpp\<close>

text \<open>
  \<^verbatim>\<open>return new ImageDataBlockWrapper();\<close> The outcome of \<^verbatim>\<open>operator new\<close> is the first
  argument: \<open>None\<close> when the allocation fails, \<open>Some a\<close> when it returns the address \<open>a\<close>.
\<close>

definition CreateImageDataBlock :: "addr option \<Rightarrow> state \<Rightarrow> fault + addr \<times> state" where
  "CreateImageDataBlock new s =
     (case new of
        None \<Rightarrow> Inl bad_alloc
      | Some a \<Rightarrow> Inr (a, s\<lparr>blocks := (blocks s)(a \<mapsto> ImageDataBlockWrapper_ctor)\<rparr>))"

definition DestroyImageDataBlock :: "addr \<Rightarrow> state \<Rightarrow> fault + state" where
  "DestroyImageDataBlock imageData s =
     (if imageData \<noteq> 0 then
        (case blocks s imageData of
           None \<Rightarrow> Inl invalid_pointer
         | Some w \<Rightarrow> Inr (s\<lparr>blocks := (blocks s)(imageData := None)\<rparr>))
      else Inr s)"

definition SetImageDataBlockSize :: "addr \<Rightarrow> CrInt32u \<Rightarrow> state \<Rightarrow> fault + state" where
  "SetImageDataBlockSize imageData sz s =
     (if imageData \<noteq> 0 then
        (case blocks s imageData of
           None \<Rightarrow> Inl invalid_pointer
         | Some w \<Rightarrow> Inr (s\<lparr>blocks := (blocks s)(imageData \<mapsto> w\<lparr>size' := sz\<rparr>)\<rparr>))
      else Inr s)"

definition SetImageDataBlockData :: "addr \<Rightarrow> addr \<Rightarrow> state \<Rightarrow> fault + state" where
  "SetImageDataBlockData imageData data s =
     (if imageData \<noteq> 0 then
        (case blocks s imageData of
           None \<Rightarrow> Inl invalid_pointer
         | Some w \<Rightarrow> Inr (s\<lparr>blocks := (blocks s)(imageData \<mapsto> w\<lparr>pData := data\<rparr>)\<rparr>))
      else Inr s)"

text \<open>The two getters write nothing, so they return a value and no state.\<close>

definition GetImageDataBlockImageSize :: "addr \<Rightarrow> state \<Rightarrow> fault + CrInt32u" where
  "GetImageDataBlockImageSize imageData s =
     (if imageData \<noteq> 0 then
        (case blocks s imageData of
           None \<Rightarrow> Inl invalid_pointer
         | Some w \<Rightarrow> Inr (imageSize w))
      else Inr 0)"

definition GetImageDataBlockImageData :: "addr \<Rightarrow> state \<Rightarrow> fault + addr" where
  "GetImageDataBlockImageData imageData s =
     (if imageData \<noteq> 0 then
        (case blocks s imageData of
           None \<Rightarrow> Inl invalid_pointer
         | Some w \<Rightarrow> Inr (pData w))
      else Inr 0)"

text \<open>
  \<^verbatim>\<open>GetLiveViewImageHelper\<close>. The library is loaded when \<^verbatim>\<open>hSonyDll\<close> is null, and the
  result of \<^verbatim>\<open>LoadLibraryA\<close> is assigned to it before it is tested; the symbol is looked up
  in the same branch only. The arguments are tested after the branch. \<open>0x8001\<close> is
  \<^verbatim>\<open>CrError_Generic\<close>.

  \<open>forward_call\<close> is the end of the function, from the test
  \<^verbatim>\<open>if (deviceHandle && imageData && pGetLiveViewImage)\<close> on, which both ways through the
  load branch reach; \<open>call_vendor\<close> is the call through the function pointer: the routine
  runs on the blocks and the buffers, its result is returned, and the call is logged. The
  function dereferences neither handle itself, so it has no fault of its own.
\<close>

definition call_vendor ::
  "ImageDataBlockWrapper vendor_routine \<Rightarrow> addr \<Rightarrow> addr \<Rightarrow> addr \<Rightarrow> state \<Rightarrow> CrError \<times> state" where
  "call_vendor f fp deviceHandle imageData s =
     (case f deviceHandle imageData (blocks s, mem s) of
        (r, bs, m) \<Rightarrow>
          (r, s\<lparr>blocks := bs, mem := m,
                trace := trace s @ [EvGetLiveViewImage fp deviceHandle imageData]\<rparr>))"

definition forward_call :: "platform \<Rightarrow> addr \<Rightarrow> addr \<Rightarrow> state \<Rightarrow> CrError \<times> state" where
  "forward_call p deviceHandle imageData s =
     (if deviceHandle \<noteq> 0 \<and> imageData \<noteq> 0 \<and> pGetLiveViewImage s \<noteq> 0 then
        call_vendor (code_at p (pGetLiveViewImage s)) (pGetLiveViewImage s) deviceHandle imageData s
      else (0x8001, s))"

definition GetLiveViewImageHelper :: "platform \<Rightarrow> addr \<Rightarrow> addr \<Rightarrow> state \<Rightarrow> CrError \<times> state" where
  "GetLiveViewImageHelper p deviceHandle imageData s =
     (if hSonyDll s = 0 then
        (let h = LoadLibraryA p ''Cr_Core.dll'';
             s1 = s\<lparr>hSonyDll := h, trace := trace s @ [EvLoadLibraryA ''Cr_Core.dll'' h]\<rparr>
         in if hSonyDll s1 = 0 then (0x8001, s1)
            else
              (let f = GetProcAddress p (hSonyDll s1) ''GetLiveViewImage'';
                   s2 = s1\<lparr>pGetLiveViewImage := f,
                          trace := trace s1 @ [EvGetProcAddress (hSonyDll s1) ''GetLiveViewImage'' f]\<rparr>
               in if pGetLiveViewImage s2 = 0 then (0x8001, s2)
                  else forward_call p deviceHandle imageData s2))
      else forward_call p deviceHandle imageData s)"

definition CopyImageData :: "addr \<Rightarrow> addr \<Rightarrow> CrInt32u \<Rightarrow> state \<Rightarrow> fault + state" where
  "CopyImageData imageData destBuffer bufferSize s =
     (if imageData \<noteq> 0 \<and> destBuffer \<noteq> 0 then
        (case blocks s imageData of
           None \<Rightarrow> Inl invalid_pointer
         | Some wrapper \<Rightarrow>
             (if pData wrapper \<noteq> 0 \<and> imageSize wrapper > 0 \<and> imageSize wrapper \<le> bufferSize then
                (case memcpy_heap sizeof_ImageDataBlockWrapper ImageDataBlockWrapper_bytes
                        ImageDataBlockWrapper_of_bytes (blocks s, mem s)
                        destBuffer (pData wrapper) (unat (imageSize wrapper)) of
                   (bs, m) \<Rightarrow> Inr (s\<lparr>blocks := bs, mem := m\<rparr>))
              else Inr s))
      else Inr s)"

text \<open>
  A host drives the library through a sequence of calls. \<open>step\<close> is one call with its
  return value dropped; \<open>run\<close> makes the calls in order and stops at the first one that
  faults, returning the state the process had reached.
\<close>

datatype call =
    CallCreate "addr option"
  | CallDestroy addr
  | CallSetSize addr CrInt32u
  | CallSetData addr addr
  | CallGetImageSize addr
  | CallGetImageData addr
  | CallGetLiveView platform addr addr
  | CallCopy addr addr CrInt32u

fun step :: "call \<Rightarrow> state \<Rightarrow> fault + state" where
  "step (CallCreate new) s = map_sum id snd (CreateImageDataBlock new s)"
| "step (CallDestroy h) s = DestroyImageDataBlock h s"
| "step (CallSetSize h n) s = SetImageDataBlockSize h n s"
| "step (CallSetData h d) s = SetImageDataBlockData h d s"
| "step (CallGetImageSize h) s = map_sum id (\<lambda>_. s) (GetImageDataBlockImageSize h s)"
| "step (CallGetImageData h) s = map_sum id (\<lambda>_. s) (GetImageDataBlockImageData h s)"
| "step (CallGetLiveView p dev h) s = Inr (snd (GetLiveViewImageHelper p dev h s))"
| "step (CallCopy h d n) s = CopyImageData h d n s"

fun run :: "call list \<Rightarrow> state \<Rightarrow> state" where
  "run [] s = s"
| "run (c # cs) s = (case step c s of Inl f \<Rightarrow> s | Inr s' \<Rightarrow> run cs s')"

text \<open>
  A process starts with no block, the statics null (their initialisers) and an empty log.
\<close>

definition process_start :: "(addr \<Rightarrow> CrInt8u) \<Rightarrow> state" where
  "process_start m =
     \<lparr>blocks = Map.empty, mem = m, trace = [], hSonyDll = 0, pGetLiveViewImage = 0\<rparr>"

text \<open>Readings of the log: attempts to load, loads that returned a module, vendor calls.\<close>

fun is_load :: "event \<Rightarrow> bool" where
  "is_load (EvLoadLibraryA name h) = True"
| "is_load (EvGetProcAddress m name f) = False"
| "is_load (EvGetLiveViewImage f dev h) = False"

fun is_loaded :: "event \<Rightarrow> bool" where
  "is_loaded (EvLoadLibraryA name h) = (h \<noteq> 0)"
| "is_loaded (EvGetProcAddress m name f) = False"
| "is_loaded (EvGetLiveViewImage f dev h) = False"

fun is_vendor_call :: "event \<Rightarrow> bool" where
  "is_vendor_call (EvLoadLibraryA name h) = False"
| "is_vendor_call (EvGetProcAddress m name f) = False"
| "is_vendor_call (EvGetLiveViewImage f dev h) = True"

definition load_attempts :: "event list \<Rightarrow> nat" where
  "load_attempts t = length (filter is_load t)"

definition loads :: "event list \<Rightarrow> nat" where
  "loads t = length (filter is_loaded t)"

definition vendor_calls :: "event list \<Rightarrow> nat" where
  "vendor_calls t = length (filter is_vendor_call t)"

section \<open>SonySDKHelper.cpp\<close>

text \<open>
  This build uses \<^verbatim>\<open>SCRSDK::CrImageDataBlock\<close>, which the file only declares: the
  constructor and the member functions are the vendor's. They are taken as parameters, as
  functions on the object (the getters are declared \<^verbatim>\<open>const\<close>), together with the imported
  \<^verbatim>\<open>GetLiveViewImage\<close>. \<open>'b\<close> is the vendor's class. The destructor that \<^verbatim>\<open>delete\<close> runs is
  taken to release the object and nothing else. The class declares seven member functions;
  the helper calls four of them, and \<^verbatim>\<open>GetFrameNo\<close>, \<^verbatim>\<open>GetSize\<close> and \<^verbatim>\<open>GetTimeCode\<close> are
  there to read the other fields. The size of an object and its bytes (\<open>object_bytes\<close>,
  \<open>object_of_bytes\<close>) are the vendor's as well.
\<close>

record 'b sdk =
  CrImageDataBlock_ctor :: 'b
  GetFrameNo :: "'b \<Rightarrow> CrInt32u"
  SetSize :: "'b \<Rightarrow> CrInt32u \<Rightarrow> 'b"
  GetSize :: "'b \<Rightarrow> CrInt32u"
  SetData :: "'b \<Rightarrow> addr \<Rightarrow> 'b"
  GetImageSize :: "'b \<Rightarrow> CrInt32u"
  GetImageData :: "'b \<Rightarrow> addr"
  GetTimeCode :: "'b \<Rightarrow> CrInt32u"
  GetLiveViewImage :: "'b vendor_routine"
  sizeof_CrImageDataBlock :: nat
  object_bytes :: "'b \<Rightarrow> nat \<Rightarrow> CrInt8u"
  object_of_bytes :: "(nat \<Rightarrow> CrInt8u) \<Rightarrow> 'b"

definition CreateImageDataBlock_sdk ::
  "'b sdk \<Rightarrow> addr option \<Rightarrow> 'b process \<Rightarrow> fault + addr \<times> 'b process" where
  "CreateImageDataBlock_sdk v new s =
     (case new of
        None \<Rightarrow> Inl bad_alloc
      | Some a \<Rightarrow> Inr (a, s\<lparr>blocks := (blocks s)(a \<mapsto> CrImageDataBlock_ctor v)\<rparr>))"

definition DestroyImageDataBlock_sdk :: "addr \<Rightarrow> 'b process \<Rightarrow> fault + 'b process" where
  "DestroyImageDataBlock_sdk imageData s =
     (if imageData \<noteq> 0 then
        (case blocks s imageData of
           None \<Rightarrow> Inl invalid_pointer
         | Some b \<Rightarrow> Inr (s\<lparr>blocks := (blocks s)(imageData := None)\<rparr>))
      else Inr s)"

definition SetImageDataBlockSize_sdk ::
  "'b sdk \<Rightarrow> addr \<Rightarrow> CrInt32u \<Rightarrow> 'b process \<Rightarrow> fault + 'b process" where
  "SetImageDataBlockSize_sdk v imageData sz s =
     (if imageData \<noteq> 0 then
        (case blocks s imageData of
           None \<Rightarrow> Inl invalid_pointer
         | Some b \<Rightarrow> Inr (s\<lparr>blocks := (blocks s)(imageData \<mapsto> SetSize v b sz)\<rparr>))
      else Inr s)"

definition SetImageDataBlockData_sdk ::
  "'b sdk \<Rightarrow> addr \<Rightarrow> addr \<Rightarrow> 'b process \<Rightarrow> fault + 'b process" where
  "SetImageDataBlockData_sdk v imageData data s =
     (if imageData \<noteq> 0 then
        (case blocks s imageData of
           None \<Rightarrow> Inl invalid_pointer
         | Some b \<Rightarrow> Inr (s\<lparr>blocks := (blocks s)(imageData \<mapsto> SetData v b data)\<rparr>))
      else Inr s)"

definition GetImageDataBlockImageSize_sdk ::
  "'b sdk \<Rightarrow> addr \<Rightarrow> 'b process \<Rightarrow> fault + CrInt32u" where
  "GetImageDataBlockImageSize_sdk v imageData s =
     (if imageData \<noteq> 0 then
        (case blocks s imageData of
           None \<Rightarrow> Inl invalid_pointer
         | Some b \<Rightarrow> Inr (GetImageSize v b))
      else Inr 0)"

definition GetImageDataBlockImageData_sdk ::
  "'b sdk \<Rightarrow> addr \<Rightarrow> 'b process \<Rightarrow> fault + addr" where
  "GetImageDataBlockImageData_sdk v imageData s =
     (if imageData \<noteq> 0 then
        (case blocks s imageData of
           None \<Rightarrow> Inl invalid_pointer
         | Some b \<Rightarrow> Inr (GetImageData v b))
      else Inr 0)"

text \<open>
  Here the vendor routine is bound when the process is linked, and the arguments are tested
  first. The log records the call with a null function pointer, as none is involved.
\<close>

definition GetLiveViewImageHelper_sdk ::
  "'b sdk \<Rightarrow> addr \<Rightarrow> addr \<Rightarrow> 'b process \<Rightarrow> CrError \<times> 'b process" where
  "GetLiveViewImageHelper_sdk v deviceHandle imageData s =
     (if deviceHandle \<noteq> 0 \<and> imageData \<noteq> 0 then
        (case GetLiveViewImage v deviceHandle imageData (blocks s, mem s) of
           (r, bs, m) \<Rightarrow>
             (r, s\<lparr>blocks := bs, mem := m,
                   trace := trace s @ [EvGetLiveViewImage 0 deviceHandle imageData]\<rparr>))
      else (0x8001, s))"

definition CopyImageData_sdk ::
  "'b sdk \<Rightarrow> addr \<Rightarrow> addr \<Rightarrow> CrInt32u \<Rightarrow> 'b process \<Rightarrow> fault + 'b process" where
  "CopyImageData_sdk v imageData destBuffer bufferSize s =
     (if imageData \<noteq> 0 \<and> destBuffer \<noteq> 0 then
        (case blocks s imageData of
           None \<Rightarrow> Inl invalid_pointer
         | Some block \<Rightarrow>
             (let imageSize = GetImageSize v block;
                  imagePtr = GetImageData v block
              in if imagePtr \<noteq> 0 \<and> imageSize > 0 \<and> imageSize \<le> bufferSize then
                   (case memcpy_heap (sizeof_CrImageDataBlock v) (object_bytes v)
                           (object_of_bytes v) (blocks s, mem s)
                           destBuffer imagePtr (unat imageSize) of
                      (bs, m) \<Rightarrow> Inr (s\<lparr>blocks := bs, mem := m\<rparr>))
                 else Inr s))
      else Inr s)"

section \<open>Concrete platforms and states for the examples\<close>

text \<open>
  A vendor routine that reports a three-byte frame: it stores the bytes 1, 2, 3 at the
  block's \<open>pData\<close>, sets \<open>imageSize\<close> to 3 and returns 0.
\<close>

definition three_byte_frame :: "ImageDataBlockWrapper vendor_routine" where
  "three_byte_frame dev h hm =
     (case fst hm h of
        None \<Rightarrow> (0x8001, hm)
      | Some w \<Rightarrow>
          (0, (fst hm)(h \<mapsto> w\<lparr>imageSize := 3\<rparr>),
              (snd hm)(pData w := 1, pData w + 1 := 2, pData w + 2 := 3)))"

definition vendor_installed :: platform where
  "vendor_installed =
     \<lparr>LoadLibraryA = (\<lambda>name. if name = ''Cr_Core.dll'' then 0x7FF000 else 0),
      GetProcAddress = (\<lambda>m name. if m = 0x7FF000 \<and> name = ''GetLiveViewImage'' then 0x7FF100 else 0),
      code_at = (\<lambda>f. three_byte_frame)\<rparr>"

definition vendor_missing :: platform where
  "vendor_missing =
     \<lparr>LoadLibraryA = (\<lambda>name. 0),
      GetProcAddress = (\<lambda>m name. 0),
      code_at = (\<lambda>f. three_byte_frame)\<rparr>"

definition symbol_missing :: platform where
  "symbol_missing =
     \<lparr>LoadLibraryA = (\<lambda>name. if name = ''Cr_Core.dll'' then 0x7FF000 else 0),
      GetProcAddress = (\<lambda>m name. 0),
      code_at = (\<lambda>f. three_byte_frame)\<rparr>"

definition zero_mem :: "addr \<Rightarrow> CrInt8u" where
  "zero_mem = (\<lambda>a. 0)"

text \<open>
  A process holding one block at \<open>0x1000\<close> whose \<open>pData\<close> is \<open>0x2000\<close> and whose
  \<open>imageSize\<close> is 3, with the bytes 7, 8, 9 at \<open>0x2000\<close>; the library is not loaded.
\<close>

definition one_block :: state where
  "one_block =
     \<lparr>blocks = [0x1000 \<mapsto> \<lparr>frameNo = 1, size' = 16, pData = 0x2000, imageSize = 3, timeCode = 0\<rparr>],
      mem = zero_mem(0x2000 := 7, 0x2001 := 8, 0x2002 := 9),
      trace = [], hSonyDll = 0, pGetLiveViewImage = 0\<rparr>"

text \<open>
  Modelled from the spec: the vendor's class \<^verbatim>\<open>SCRSDK::CrImageDataBlock\<close>, whose
  constructor and member functions \<^verbatim>\<open>SonySDKHelper.cpp\<close> declares and the vendor's SDK
  defines. After the spec's data model it has the five fields of the wrapper in the same
  order, a fresh block "has all scalar fields zero and \<open>data_ptr\<close> null", \<open>set_size\<close>
  "stores \<open>n\<close> as the buffer capacity", \<open>set_data\<close> "stores the non-owning pixel-buffer
  pointer", and the getters return the stored fields.
\<close>

definition mirror_sdk :: "ImageDataBlockWrapper sdk" where
  "mirror_sdk =
     \<lparr>CrImageDataBlock_ctor = ImageDataBlockWrapper_ctor,
      GetFrameNo = frameNo,
      SetSize = (\<lambda>b n. b\<lparr>size' := n\<rparr>),
      GetSize = size',
      SetData = (\<lambda>b d. b\<lparr>pData := d\<rparr>),
      GetImageSize = imageSize,
      GetImageData = pData,
      GetTimeCode = timeCode,
      GetLiveViewImage = three_byte_frame,
      sizeof_CrImageDataBlock = sizeof_ImageDataBlockWrapper,
      object_bytes = ImageDataBlockWrapper_bytes,
      object_of_bytes = ImageDataBlockWrapper_of_bytes\<rparr>"

definition one_block_sdk :: "ImageDataBlockWrapper process" where
  "one_block_sdk =
     \<lparr>blocks = [0x1000 \<mapsto> \<lparr>frameNo = 1, size' = 16, pData = 0x2000, imageSize = 3, timeCode = 0\<rparr>],
      mem = zero_mem(0x2000 := 7, 0x2001 := 8, 0x2002 := 9),
      trace = []\<rparr>"

text \<open>
  \<open>one_block\<close> after a load that found the module but not the symbol, and after a
  complete binding.
\<close>

definition symbol_unresolved :: state where
  "symbol_unresolved = one_block\<lparr>hSonyDll := 0x7FF000\<rparr>"

definition vendor_bound :: state where
  "vendor_bound = one_block\<lparr>hSonyDll := 0x7FF000, pGetLiveViewImage := 0x7FF100\<rparr>"

section \<open>Properties\<close>

subsection \<open>What the copy primitive writes\<close>

text \<open>
  \<open>memcpy m dest src n\<close> gives offset \<open>i < n\<close> of the destination the byte that was at
  offset \<open>i\<close> of the source, leaves every address outside the destination range as it
  was, and the destination range has exactly \<open>n\<close> addresses.
\<close>

lemma memcpy_dest:
  "i < n \<Longrightarrow> n \<le> 2 ^ 32 \<Longrightarrow> memcpy m dest src n (dest + of_nat i) = m (src + of_nat i)"
  by (simp add: memcpy_def unat_of_nat)

lemma memcpy_elsewhere:
  "n \<le> unat (a - dest) \<Longrightarrow> memcpy m dest src n a = m a"
  by (simp add: memcpy_def)

lemma written_set: "n \<le> 2 ^ 64 \<Longrightarrow> {a :: addr. unat (a - d) < n} = (\<lambda>i. d + of_nat i) ` {..<n}"
proof (intro set_eqI iffI)
  fix a assume "a \<in> {a :: addr. unat (a - d) < n}"
  then have "unat (a - d) < n" by simp
  moreover have "a = d + of_nat (unat (a - d))" by simp
  ultimately show "a \<in> (\<lambda>i. d + of_nat i) ` {..<n}" by blast
next
  fix a assume n: "n \<le> 2 ^ 64" and "a \<in> (\<lambda>i. d + of_nat i) ` {..<n}"
  then obtain i where "i < n" "a = d + of_nat i" by auto
  with n show "a \<in> {a :: addr. unat (a - d) < n}" by (simp add: unat_of_nat)
qed

lemma card_written: "n \<le> 2 ^ 64 \<Longrightarrow> card {a :: addr. unat (a - d) < n} = n"
proof -
  assume n: "n \<le> 2 ^ 64"
  have "inj_on (\<lambda>i. d + (of_nat i :: addr)) {..<n}"
  proof (rule inj_onI)
    fix x y assume "x \<in> {..<n}" "y \<in> {..<n}" "d + (of_nat x :: addr) = d + of_nat y"
    then have "x < 2 ^ 64" "y < 2 ^ 64" "(of_nat x :: addr) = of_nat y" using n by auto
    then have "unat (of_nat x :: addr) = unat (of_nat y :: addr)" by simp
    with \<open>x < 2 ^ 64\<close> \<open>y < 2 ^ 64\<close> show "x = y" by (simp add: unat_of_nat)
  qed
  then show ?thesis using n by (simp add: written_set card_image)
qed



text \<open>
  An address inside a live block is found by \<open>block_at\<close>, so a range that is outside the
  blocks contains no byte of one. A copy between two such ranges is the copy on the
  buffers alone: the blocks are as they were.
\<close>

lemma block_at_self:
  assumes "bs h = Some b" and "i < sz"
  shows "block_at sz bs (h + of_nat i) \<noteq> None"
proof -
  have "h + of_nat i - of_nat i = h" by simp
  with assms have "\<exists>x. x \<in> set (map (\<lambda>j. h + of_nat i - of_nat j) [0..<sz]) \<and> bs x \<noteq> None"
    by (intro exI [of _ h]) (auto intro!: image_eqI [of _ _ i])
  then show ?thesis by (simp add: block_at_def find_None_iff del: set_map)
qed

lemma outside_blocksD:
  assumes "outside_blocks sz bs a n" and "unat (x - a) < n"
  shows "block_at sz bs x = None"
proof -
  have "x = a + of_nat (unat (x - a))" by simp
  moreover from assms have "block_at sz bs (a + of_nat (unat (x - a))) = None"
    unfolding outside_blocks_def list_all_iff by (metis atLeastLessThan_iff set_upt zero_le)
  ultimately show ?thesis by metis
qed

lemma byte_at_outside:
  "block_at sz bs a = None \<Longrightarrow> byte_at sz enc bs m a = m a"
  by (simp add: byte_at_def)

lemma memcpy_heap_buffers:
  assumes d: "outside_blocks sz bs dest n" and s: "outside_blocks sz bs src n"
  shows "memcpy_heap sz enc dec (bs, m) dest src n = (bs, memcpy m dest src n)"
proof -
  have untouched: "\<not> list_ex (\<lambda>i. unat (h + of_nat i - dest) < n) [0..<sz]" if "bs h = Some b" for h b
  proof
    assume "list_ex (\<lambda>i. unat (h + of_nat i - dest) < n) [0..<sz]"
    then obtain i where "i < sz" "unat (h + of_nat i - dest) < n"
      by (auto simp: list_ex_iff)
    with outside_blocksD [OF d, of "h + of_nat i"] block_at_self [of bs h b i sz] that
    show False by blast
  qed
  have blocks: "(case bs h of None \<Rightarrow> None
          | Some b \<Rightarrow> Some (if list_ex (\<lambda>i. unat (h + of_nat i - dest) < n) [0..<sz]
                             then dec (\<lambda>i. memcpy (byte_at sz enc bs m) dest src n (h + of_nat i)) else b)) = bs h" for h
    using untouched [of h] by (cases "bs h") simp_all
  have bytes: "(if block_at sz bs a = None then memcpy (byte_at sz enc bs m) dest src n a else m a) =
      memcpy m dest src n a" for a
  proof (cases "unat (a - dest) < n")
    case True
    have "src + (a - dest) = src + of_nat (unat (a - dest))" by simp
    then have "unat (src + (a - dest) - src) < n" using True by simp
    from outside_blocksD [OF s this] outside_blocksD [OF d True] True
    show ?thesis by (simp add: memcpy_def byte_at_outside)
  next
    case False
    then show ?thesis by (simp add: memcpy_def byte_at_outside)
  qed
  show ?thesis
    by (simp add: memcpy_heap_def Let_def blocks bytes)
qed

text \<open>
  A copy that meets a block is the copy on its bytes. In \<open>one_block\<close>, copying the frame
  (bytes 7, 8, 9) to offset 16 of the block overwrites three of the four bytes of
  \<open>imageSize\<close>, which becomes \<open>0x090807\<close>; and with \<open>pData\<close> set to the block's own
  address the first three bytes of \<open>frameNo\<close> are what is copied out.
\<close>

lemma copy_into_block:
  "\<exists>s'. CopyImageData 0x1000 0x1010 8 one_block = Inr s' \<and>
     blocks s' 0x1000 =
       Some \<lparr>frameNo = 1, size' = 16, pData = 0x2000, imageSize = 591879, timeCode = 0\<rparr>"
  by (simp add: CopyImageData_def one_block_def memcpy_heap_def Let_def byte_at_def block_at_def
      memcpy_def sizeof_ImageDataBlockWrapper_def ImageDataBlockWrapper_bytes_def
      ImageDataBlockWrapper_of_bytes_def byte_of_def zero_mem_def
      upt_rec [of _ "numeral k" for k])

lemma copy_from_block:
  "\<exists>s'. CopyImageData 0x1000 0x3000 8
          (one_block\<lparr>blocks := [0x1000 \<mapsto>
             \<lparr>frameNo = 0x030201, size' = 16, pData = 0x1000, imageSize = 3, timeCode = 0\<rparr>]\<rparr>) = Inr s' \<and>
     mem s' 0x3000 = 1 \<and> mem s' 0x3001 = 2 \<and> mem s' 0x3002 = 3 \<and> mem s' 0x3003 = 0"
  by (simp add: CopyImageData_def one_block_def memcpy_heap_def Let_def byte_at_def block_at_def
      memcpy_def sizeof_ImageDataBlockWrapper_def ImageDataBlockWrapper_bytes_def
      byte_of_def zero_mem_def upt_rec [of _ "numeral k" for k])

text \<open>The buffers of the examples are outside the one block.\<close>

lemma outside_one_block:
  "outside_blocks sizeof_ImageDataBlockWrapper (blocks one_block) 0x3000 3"
  "outside_blocks sizeof_ImageDataBlockWrapper (blocks one_block) 0x2000 3"
  by (simp_all add: outside_blocks_def block_at_def sizeof_ImageDataBlockWrapper_def one_block_def
      upt_rec [of _ "numeral k" for k])

lemma outside_one_block_sdk:
  "outside_blocks sizeof_ImageDataBlockWrapper (blocks one_block_sdk) 0x3000 3"
  "outside_blocks sizeof_ImageDataBlockWrapper (blocks one_block_sdk) 0x2000 3"
  by (simp_all add: outside_blocks_def block_at_def sizeof_ImageDataBlockWrapper_def one_block_sdk_def
      upt_rec [of _ "numeral k" for k])

subsection \<open>Reading the log and the fetch, case by case\<close>

lemma count_append [simp]:
  "load_attempts (t @ u) = load_attempts t + load_attempts u"
  "loads (t @ u) = loads t + loads u"
  "vendor_calls (t @ u) = vendor_calls t + vendor_calls u"
  by (simp_all add: load_attempts_def loads_def vendor_calls_def)

lemma count_Cons [simp]:
  "load_attempts (e # t) = (if is_load e then 1 else 0) + load_attempts t"
  "loads (e # t) = (if is_loaded e then 1 else 0) + loads t"
  "vendor_calls (e # t) = (if is_vendor_call e then 1 else 0) + vendor_calls t"
  by (simp_all add: load_attempts_def loads_def vendor_calls_def)

lemma count_Nil [simp]: "load_attempts [] = 0" "loads [] = 0" "vendor_calls [] = 0"
  by (simp_all add: load_attempts_def loads_def vendor_calls_def)

lemma call_vendor_fields:
  "fst (call_vendor f fp dev h s) = fst (f dev h (blocks s, mem s))"
  "hSonyDll (snd (call_vendor f fp dev h s)) = hSonyDll s"
  "pGetLiveViewImage (snd (call_vendor f fp dev h s)) = pGetLiveViewImage s"
  "trace (snd (call_vendor f fp dev h s)) = trace s @ [EvGetLiveViewImage fp dev h]"
  by (simp_all add: call_vendor_def split: prod.splits)

lemma forward_call_fields:
  "hSonyDll (snd (forward_call p dev h s)) = hSonyDll s"
  "pGetLiveViewImage (snd (forward_call p dev h s)) = pGetLiveViewImage s"
  "load_attempts (trace (snd (forward_call p dev h s))) = load_attempts (trace s)"
  "loads (trace (snd (forward_call p dev h s))) = loads (trace s)"
  by (simp_all add: forward_call_def call_vendor_fields)

lemma forward_call_null:
  "h = 0 \<or> dev = 0 \<or> pGetLiveViewImage s = 0 \<Longrightarrow> forward_call p dev h s = (0x8001, s)"
  by (auto simp: forward_call_def)

lemma forward_call_bound:
  "dev \<noteq> 0 \<Longrightarrow> h \<noteq> 0 \<Longrightarrow> pGetLiveViewImage s \<noteq> 0 \<Longrightarrow>
   forward_call p dev h s =
     call_vendor (code_at p (pGetLiveViewImage s)) (pGetLiveViewImage s) dev h s"
  by (simp add: forward_call_def)

lemma fetch_cached:
  "hSonyDll s \<noteq> 0 \<Longrightarrow> GetLiveViewImageHelper p dev h s = forward_call p dev h s"
  by (simp add: GetLiveViewImageHelper_def)

lemma fetch_load_failed:
  assumes "hSonyDll s = 0" and "LoadLibraryA p ''Cr_Core.dll'' = 0"
  shows "GetLiveViewImageHelper p dev h s =
           (0x8001, s\<lparr>hSonyDll := 0, trace := trace s @ [EvLoadLibraryA ''Cr_Core.dll'' 0]\<rparr>)"
  using assms by (simp add: GetLiveViewImageHelper_def)

lemma fetch_symbol_missing:
  assumes "hSonyDll s = 0" and "LoadLibraryA p ''Cr_Core.dll'' = m" and "m \<noteq> 0"
    and "GetProcAddress p m ''GetLiveViewImage'' = 0"
  shows "GetLiveViewImageHelper p dev h s =
           (0x8001, s\<lparr>hSonyDll := m, pGetLiveViewImage := 0,
              trace := trace s @ [EvLoadLibraryA ''Cr_Core.dll'' m,
                                  EvGetProcAddress m ''GetLiveViewImage'' 0]\<rparr>)"
  using assms by (simp add: GetLiveViewImageHelper_def)

lemma fetch_first_bind:
  assumes "hSonyDll s = 0" and "LoadLibraryA p ''Cr_Core.dll'' = m" and "m \<noteq> 0"
    and "GetProcAddress p m ''GetLiveViewImage'' = f" and "f \<noteq> 0"
  shows "GetLiveViewImageHelper p dev h s =
           forward_call p dev h
             (s\<lparr>hSonyDll := m, pGetLiveViewImage := f,
                trace := trace s @ [EvLoadLibraryA ''Cr_Core.dll'' m,
                                    EvGetProcAddress m ''GetLiveViewImage'' f]\<rparr>)"
  using assms by (simp add: GetLiveViewImageHelper_def)

lemma fetch_cached_fields:
  assumes "hSonyDll s \<noteq> 0"
  shows "hSonyDll (snd (GetLiveViewImageHelper p dev h s)) = hSonyDll s"
    and "pGetLiveViewImage (snd (GetLiveViewImageHelper p dev h s)) = pGetLiveViewImage s"
    and "load_attempts (trace (snd (GetLiveViewImageHelper p dev h s))) = load_attempts (trace s)"
    and "loads (trace (snd (GetLiveViewImageHelper p dev h s))) = loads (trace s)"
  using assms by (simp_all add: fetch_cached forward_call_fields)

subsection \<open>Sequences of calls\<close>

text \<open>
  Only the fetch touches the statics and the log. With the module handle set, no call
  changes the handle or the function pointer, and none loads.
\<close>

lemma step_other:
  assumes "step c s = Inr s'" and "\<forall>p dev h. c \<noteq> CallGetLiveView p dev h"
  shows "hSonyDll s' = hSonyDll s \<and> pGetLiveViewImage s' = pGetLiveViewImage s \<and> trace s' = trace s"
  using assms
  by (cases c)
     (auto simp: CreateImageDataBlock_def DestroyImageDataBlock_def SetImageDataBlockSize_def
        SetImageDataBlockData_def GetImageDataBlockImageSize_def GetImageDataBlockImageData_def
        CopyImageData_def split: option.splits if_splits prod.splits)

lemma step_cached:
  assumes "hSonyDll s \<noteq> 0" and "step c s = Inr s'"
  shows "hSonyDll s' = hSonyDll s \<and> pGetLiveViewImage s' = pGetLiveViewImage s \<and>
         load_attempts (trace s') = load_attempts (trace s) \<and> loads (trace s') = loads (trace s)"
proof (cases "\<exists>p dev h. c = CallGetLiveView p dev h")
  case True
  then show ?thesis using assms by (auto simp: fetch_cached_fields)
next
  case False
  then show ?thesis using step_other [OF assms(2)] by simp
qed

lemma run_cached:
  "hSonyDll s \<noteq> 0 \<Longrightarrow>
   hSonyDll (run cs s) = hSonyDll s \<and> pGetLiveViewImage (run cs s) = pGetLiveViewImage s \<and>
   load_attempts (trace (run cs s)) = load_attempts (trace s) \<and>
   loads (trace (run cs s)) = loads (trace s)"
proof (induction cs arbitrary: s)
  case Nil
  show ?case by simp
next
  case (Cons c cs)
  show ?case
  proof (cases "step c s")
    case (Inl f)
    then show ?thesis by simp
  next
    case (Inr s1)
    from step_cached [OF Cons.prems Inr] Cons.prems Cons.IH [of s1] Inr
    show ?thesis by simp
  qed
qed

lemma fetch_unloaded_loads:
  assumes "hSonyDll s = 0" and "loads (trace s) = 0"
  shows "(hSonyDll (snd (GetLiveViewImageHelper p dev h s)) = 0 \<and>
          loads (trace (snd (GetLiveViewImageHelper p dev h s))) = 0) \<or>
         (hSonyDll (snd (GetLiveViewImageHelper p dev h s)) \<noteq> 0 \<and>
          loads (trace (snd (GetLiveViewImageHelper p dev h s))) = 1)"
  using assms
  by (auto simp: GetLiveViewImageHelper_def Let_def forward_call_fields)

lemma run_loads_le_1:
  "(hSonyDll s = 0 \<and> loads (trace s) = 0) \<or> (hSonyDll s \<noteq> 0 \<and> loads (trace s) = 1) \<Longrightarrow>
   loads (trace (run cs s)) \<le> 1"
proof (induction cs arbitrary: s)
  case Nil
  then show ?case by auto
next
  case (Cons c cs)
  show ?case
  proof (cases "hSonyDll s = 0")
    case False
    with Cons.prems run_cached [of s "c # cs"] show ?thesis by auto
  next
    case True
    with Cons.prems have l: "loads (trace s) = 0" by auto
    show ?thesis
    proof (cases "step c s")
      case (Inl f)
      then show ?thesis using l by simp
    next
      case (Inr s1)
      have "(hSonyDll s1 = 0 \<and> loads (trace s1) = 0) \<or> (hSonyDll s1 \<noteq> 0 \<and> loads (trace s1) = 1)"
      proof (cases "\<exists>p dev h. c = CallGetLiveView p dev h")
        case True
        then obtain p dev h where c: "c = CallGetLiveView p dev h" by blast
        with Inr have "s1 = snd (GetLiveViewImageHelper p dev h s)" by simp
        with fetch_unloaded_loads [OF \<open>hSonyDll s = 0\<close> l, of p dev h] show ?thesis by simp
      next
        case False
        with step_other [OF Inr] \<open>hSonyDll s = 0\<close> l show ?thesis by simp
      qed
      from Cons.IH [OF this] Inr show ?thesis by simp
    qed
  qed
qed

text \<open>
  In every state a process reaches, a null module handle comes with a null function
  pointer: the pointer is assigned only after the handle has been set.
\<close>

lemma run_unloaded_unbound:
  "hSonyDll s = 0 \<longrightarrow> pGetLiveViewImage s = 0 \<Longrightarrow>
   hSonyDll (run cs s) = 0 \<longrightarrow> pGetLiveViewImage (run cs s) = 0"
proof (induction cs arbitrary: s)
  case Nil
  then show ?case by simp
next
  case (Cons c cs)
  show ?case
  proof (cases "step c s")
    case (Inl f)
    with Cons.prems show ?thesis by simp
  next
    case (Inr s1)
    have "hSonyDll s1 = 0 \<longrightarrow> pGetLiveViewImage s1 = 0"
    proof (cases "\<exists>p dev h. c = CallGetLiveView p dev h")
      case True
      then obtain p dev h where "c = CallGetLiveView p dev h" by blast
      with Inr have "s1 = snd (GetLiveViewImageHelper p dev h s)" by simp
      with Cons.prems show ?thesis
        by (auto simp: GetLiveViewImageHelper_def Let_def forward_call_fields split: if_splits)
    next
      case False
      with step_other [OF Inr] Cons.prems show ?thesis by simp
    qed
    from Cons.IH [OF this] Inr show ?thesis by simp
  qed
qed

lemma unloaded_implies_unbound:
  "hSonyDll (run cs (process_start m)) = 0 \<longrightarrow> pGetLiveViewImage (run cs (process_start m)) = 0"
  by (rule run_unloaded_unbound) (simp add: process_start_def)

subsection \<open>The claims\<close>

text \<open>
  C1. For a live block \<open>h\<close>, any destination \<open>d\<close> and any capacity \<open>n\<close>, \<open>CopyImageData\<close>
  returns. Unless \<open>d\<close> and the block's data pointer are non-null, the image size is
  positive and the image size is at most \<open>n\<close>, it returns the state as it was: no byte
  is written. When all four hold it makes one \<open>memcpy\<close> of \<open>min image_size n\<close> bytes, which
  is the image size, from the data pointer to \<open>d\<close>, on the address space that holds the
  blocks and the buffers; and when neither range has a byte of a live block (the buffers
  are the host's), that copy changes the buffers only: the \<open>image_size\<close> bytes at \<open>d\<close>
  become those at the data pointer, and every block and every other byte is as it was.
  Both builds behave so; the linked one reads the size and the pointer through the
  vendor's getters.
\<close>

theorem CopyImageData_bounded:
  assumes "h \<noteq> 0" and "blocks s h = Some w" and "blocks t h = Some b"
  shows
    "(\<not> (d \<noteq> 0 \<and> pData w \<noteq> 0 \<and> 0 < imageSize w \<and> imageSize w \<le> n) \<longrightarrow>
        CopyImageData h d n s = Inr s) \<and>
     (d \<noteq> 0 \<and> pData w \<noteq> 0 \<and> 0 < imageSize w \<and> imageSize w \<le> n \<longrightarrow>
        min (imageSize w) n = imageSize w \<and>
        CopyImageData h d n s =
          Inr (case memcpy_heap sizeof_ImageDataBlockWrapper ImageDataBlockWrapper_bytes
                      ImageDataBlockWrapper_of_bytes (blocks s, mem s)
                      d (pData w) (unat (min (imageSize w) n)) of
                 (bs, m) \<Rightarrow> s\<lparr>blocks := bs, mem := m\<rparr>)) \<and>
     (d \<noteq> 0 \<and> pData w \<noteq> 0 \<and> 0 < imageSize w \<and> imageSize w \<le> n \<and>
      outside_blocks sizeof_ImageDataBlockWrapper (blocks s) d (unat (imageSize w)) \<and>
      outside_blocks sizeof_ImageDataBlockWrapper (blocks s) (pData w) (unat (imageSize w)) \<longrightarrow>
        CopyImageData h d n s =
          Inr (s\<lparr>mem := memcpy (mem s) d (pData w) (unat (min (imageSize w) n))\<rparr>)) \<and>
     (\<not> (d \<noteq> 0 \<and> GetImageData v b \<noteq> 0 \<and> 0 < GetImageSize v b \<and> GetImageSize v b \<le> n) \<longrightarrow>
        CopyImageData_sdk v h d n t = Inr t) \<and>
     (d \<noteq> 0 \<and> GetImageData v b \<noteq> 0 \<and> 0 < GetImageSize v b \<and> GetImageSize v b \<le> n \<longrightarrow>
        min (GetImageSize v b) n = GetImageSize v b \<and>
        CopyImageData_sdk v h d n t =
          Inr (case memcpy_heap (sizeof_CrImageDataBlock v) (object_bytes v) (object_of_bytes v)
                      (blocks t, mem t) d (GetImageData v b) (unat (min (GetImageSize v b) n)) of
                 (bs, m) \<Rightarrow> t\<lparr>blocks := bs, mem := m\<rparr>)) \<and>
     (d \<noteq> 0 \<and> GetImageData v b \<noteq> 0 \<and> 0 < GetImageSize v b \<and> GetImageSize v b \<le> n \<and>
      outside_blocks (sizeof_CrImageDataBlock v) (blocks t) d (unat (GetImageSize v b)) \<and>
      outside_blocks (sizeof_CrImageDataBlock v) (blocks t) (GetImageData v b)
        (unat (GetImageSize v b)) \<longrightarrow>
        CopyImageData_sdk v h d n t =
          Inr (t\<lparr>mem := memcpy (mem t) d (GetImageData v b) (unat (min (GetImageSize v b) n))\<rparr>))"
  using assms
  by (auto simp: CopyImageData_def CopyImageData_sdk_def min_def Let_def memcpy_heap_buffers
      split: prod.splits)

theorem CopyImageData_bounded_witness:
  "(0x1000 :: addr) \<noteq> 0 \<and>
   blocks one_block 0x1000 =
     Some \<lparr>frameNo = 1, size' = 16, pData = 0x2000, imageSize = 3, timeCode = 0\<rparr> \<and>
   blocks one_block_sdk 0x1000 =
     Some \<lparr>frameNo = 1, size' = 16, pData = 0x2000, imageSize = 3, timeCode = 0\<rparr> \<and>
   outside_blocks sizeof_ImageDataBlockWrapper (blocks one_block) 0x3000 3 \<and>
   outside_blocks sizeof_ImageDataBlockWrapper (blocks one_block) 0x2000 3 \<and>
   CopyImageData 0x1000 0x3000 8 one_block =
     Inr (one_block\<lparr>mem := memcpy (mem one_block) 0x3000 0x2000 3\<rparr>) \<and>
   memcpy (mem one_block) 0x3000 0x2000 3 0x3000 = 7 \<and>
   memcpy (mem one_block) 0x3000 0x2000 3 0x3002 = 9 \<and>
   memcpy (mem one_block) 0x3000 0x2000 3 0x3003 = 0 \<and>
   CopyImageData 0x1000 0x3000 2 one_block = Inr one_block \<and>
   CopyImageData_sdk mirror_sdk 0x1000 0x3000 8 one_block_sdk =
     Inr (one_block_sdk\<lparr>mem := memcpy (mem one_block_sdk) 0x3000 0x2000 3\<rparr>) \<and>
   CopyImageData_sdk mirror_sdk 0x1000 0x3000 2 one_block_sdk = Inr one_block_sdk"
proof -
  let ?w = "\<lparr>frameNo = 1, size' = 16, pData = 0x2000, imageSize = 3, timeCode = 0\<rparr>"
  have nz: "(0x1000 :: addr) \<noteq> 0" by simp
  have live: "blocks one_block 0x1000 = Some ?w" "blocks one_block_sdk 0x1000 = Some ?w"
    by (simp_all add: one_block_def one_block_sdk_def)
  have v: "GetImageSize mirror_sdk ?w = 3" "GetImageData mirror_sdk ?w = 0x2000"
    "sizeof_CrImageDataBlock mirror_sdk = sizeof_ImageDataBlockWrapper"
    by (simp_all add: mirror_sdk_def)
  note T = CopyImageData_bounded [where v = mirror_sdk, OF nz live]
  have pre: "(0x3000 :: addr) \<noteq> 0 \<and> pData ?w \<noteq> 0 \<and> 0 < imageSize ?w \<and> imageSize ?w \<le> 8 \<and>
      outside_blocks sizeof_ImageDataBlockWrapper (blocks one_block) 0x3000 (unat (imageSize ?w)) \<and>
      outside_blocks sizeof_ImageDataBlockWrapper (blocks one_block) (pData ?w) (unat (imageSize ?w))"
    using outside_one_block by simp
  have pre_sdk: "(0x3000 :: addr) \<noteq> 0 \<and> GetImageData mirror_sdk ?w \<noteq> 0 \<and>
      0 < GetImageSize mirror_sdk ?w \<and> GetImageSize mirror_sdk ?w \<le> 8 \<and>
      outside_blocks (sizeof_CrImageDataBlock mirror_sdk) (blocks one_block_sdk) 0x3000
        (unat (GetImageSize mirror_sdk ?w)) \<and>
      outside_blocks (sizeof_CrImageDataBlock mirror_sdk) (blocks one_block_sdk)
        (GetImageData mirror_sdk ?w) (unat (GetImageSize mirror_sdk ?w))"
    using outside_one_block_sdk by (simp add: v)
  from T [where d = "0x3000" and n = 8] pre pre_sdk
  have "CopyImageData 0x1000 0x3000 8 one_block =
       Inr (one_block\<lparr>mem := memcpy (mem one_block) 0x3000 (pData ?w) (unat (min (imageSize ?w) 8))\<rparr>)"
    and "CopyImageData_sdk mirror_sdk 0x1000 0x3000 8 one_block_sdk =
       Inr (one_block_sdk\<lparr>mem := memcpy (mem one_block_sdk) 0x3000 (GetImageData mirror_sdk ?w)
              (unat (min (GetImageSize mirror_sdk ?w) 8))\<rparr>)"
    by blast+
  then have copy: "CopyImageData 0x1000 0x3000 8 one_block =
       Inr (one_block\<lparr>mem := memcpy (mem one_block) 0x3000 0x2000 3\<rparr>)"
    "CopyImageData_sdk mirror_sdk 0x1000 0x3000 8 one_block_sdk =
       Inr (one_block_sdk\<lparr>mem := memcpy (mem one_block_sdk) 0x3000 0x2000 3\<rparr>)"
    by (simp_all add: v)
  have none: "CopyImageData 0x1000 0x3000 2 one_block = Inr one_block"
    "CopyImageData_sdk mirror_sdk 0x1000 0x3000 2 one_block_sdk = Inr one_block_sdk"
    using T [where d = "0x3000" and n = 2] by (simp_all add: v)
  have bytes: "memcpy (mem one_block) 0x3000 0x2000 3 0x3000 = 7"
    "memcpy (mem one_block) 0x3000 0x2000 3 0x3002 = 9"
    "memcpy (mem one_block) 0x3000 0x2000 3 0x3003 = 0"
    by (simp_all add: memcpy_def one_block_def zero_mem_def)
  from nz live outside_one_block copy none bytes show ?thesis by blast
qed

text \<open>
  C2, as amended. With a null block the fetch returns \<open>0x8001\<close>, never calls the vendor's
  live-view routine and leaves blocks and buffers alone. In the build that binds at run
  time the load comes before the test of the arguments. With the module handle set the
  call changes nothing at all. With the handle null it calls \<^verbatim>\<open>LoadLibraryA\<close> once and
  stores the result in the handle; if that is null the function pointer is untouched and
  the log gains the failed load only; if it is not, \<^verbatim>\<open>GetProcAddress\<close> is called on the
  new module, its result is stored in the function pointer, and the log gains the two
  calls in that order. The linked build returns at once.
\<close>

theorem null_block_fetch:
  "fst (GetLiveViewImageHelper p dev 0 s) = 0x8001 \<and>
   vendor_calls (trace (snd (GetLiveViewImageHelper p dev 0 s))) = vendor_calls (trace s) \<and>
   blocks (snd (GetLiveViewImageHelper p dev 0 s)) = blocks s \<and>
   mem (snd (GetLiveViewImageHelper p dev 0 s)) = mem s \<and>
   (hSonyDll s \<noteq> 0 \<longrightarrow> GetLiveViewImageHelper p dev 0 s = (0x8001, s)) \<and>
   (hSonyDll s = 0 \<longrightarrow>
      load_attempts (trace (snd (GetLiveViewImageHelper p dev 0 s))) = load_attempts (trace s) + 1 \<and>
      hSonyDll (snd (GetLiveViewImageHelper p dev 0 s)) = LoadLibraryA p ''Cr_Core.dll'') \<and>
   (hSonyDll s = 0 \<and> LoadLibraryA p ''Cr_Core.dll'' = 0 \<longrightarrow>
      pGetLiveViewImage (snd (GetLiveViewImageHelper p dev 0 s)) = pGetLiveViewImage s \<and>
      trace (snd (GetLiveViewImageHelper p dev 0 s)) =
        trace s @ [EvLoadLibraryA ''Cr_Core.dll'' 0]) \<and>
   (hSonyDll s = 0 \<and> LoadLibraryA p ''Cr_Core.dll'' \<noteq> 0 \<longrightarrow>
      pGetLiveViewImage (snd (GetLiveViewImageHelper p dev 0 s)) =
        GetProcAddress p (LoadLibraryA p ''Cr_Core.dll'') ''GetLiveViewImage'' \<and>
      trace (snd (GetLiveViewImageHelper p dev 0 s)) =
        trace s @ [EvLoadLibraryA ''Cr_Core.dll'' (LoadLibraryA p ''Cr_Core.dll''),
                   EvGetProcAddress (LoadLibraryA p ''Cr_Core.dll'') ''GetLiveViewImage''
                     (GetProcAddress p (LoadLibraryA p ''Cr_Core.dll'') ''GetLiveViewImage'')]) \<and>
   GetLiveViewImageHelper_sdk v dev 0 t = (0x8001, t)"
  by (simp add: GetLiveViewImageHelper_def GetLiveViewImageHelper_sdk_def forward_call_null Let_def)

theorem null_block_fetch_witness:
  "hSonyDll vendor_bound \<noteq> 0 \<and>
   GetLiveViewImageHelper vendor_installed 1 0 vendor_bound = (0x8001, vendor_bound) \<and>
   hSonyDll one_block = 0 \<and> LoadLibraryA vendor_installed ''Cr_Core.dll'' \<noteq> 0 \<and>
   fst (GetLiveViewImageHelper vendor_installed 1 0 one_block) = 0x8001 \<and>
   hSonyDll (snd (GetLiveViewImageHelper vendor_installed 1 0 one_block)) = 0x7FF000 \<and>
   pGetLiveViewImage (snd (GetLiveViewImageHelper vendor_installed 1 0 one_block)) = 0x7FF100 \<and>
   trace (snd (GetLiveViewImageHelper vendor_installed 1 0 one_block)) =
     [EvLoadLibraryA ''Cr_Core.dll'' 0x7FF000,
      EvGetProcAddress 0x7FF000 ''GetLiveViewImage'' 0x7FF100] \<and>
   load_attempts (trace (snd (GetLiveViewImageHelper vendor_installed 1 0 one_block))) = 1 \<and>
   vendor_calls (trace (snd (GetLiveViewImageHelper vendor_installed 1 0 one_block))) = 0 \<and>
   LoadLibraryA vendor_missing ''Cr_Core.dll'' = 0 \<and>
   hSonyDll (snd (GetLiveViewImageHelper vendor_missing 1 0 one_block)) = 0 \<and>
   pGetLiveViewImage (snd (GetLiveViewImageHelper vendor_missing 1 0 one_block)) = 0 \<and>
   trace (snd (GetLiveViewImageHelper vendor_missing 1 0 one_block)) =
     [EvLoadLibraryA ''Cr_Core.dll'' 0] \<and>
   GetLiveViewImageHelper_sdk mirror_sdk 1 0 one_block_sdk = (0x8001, one_block_sdk)"
proof -
  have a: "hSonyDll vendor_bound \<noteq> 0" "hSonyDll one_block = 0" "pGetLiveViewImage one_block = 0"
    "trace one_block = []"
    by (simp_all add: vendor_bound_def one_block_def)
  have b: "LoadLibraryA vendor_installed ''Cr_Core.dll'' = 0x7FF000"
    "GetProcAddress vendor_installed 0x7FF000 ''GetLiveViewImage'' = 0x7FF100"
    "LoadLibraryA vendor_missing ''Cr_Core.dll'' = 0"
    by (simp_all add: vendor_installed_def vendor_missing_def)
  from null_block_fetch [where s = vendor_bound and p = vendor_installed and dev = 1
      and v = mirror_sdk and t = one_block_sdk]
    null_block_fetch [where s = one_block and p = vendor_installed and dev = 1
      and v = mirror_sdk and t = one_block_sdk]
    null_block_fetch [where s = one_block and p = vendor_missing and dev = 1
      and v = mirror_sdk and t = one_block_sdk]
  show ?thesis by (simp add: a b)
qed

text \<open>
  C2, as stated, fails on the build that binds at run time: the first fetch of a process,
  made with a null block while the library is installed, loads \<^verbatim>\<open>Cr_Core.dll\<close> and looks
  the symbol up before it returns \<open>0x8001\<close>.
\<close>

theorem null_block_fetch_loads_library:
  "trace (snd (GetLiveViewImageHelper vendor_installed 1 0 (process_start zero_mem))) =
     [EvLoadLibraryA ''Cr_Core.dll'' 0x7FF000,
      EvGetProcAddress 0x7FF000 ''GetLiveViewImage'' 0x7FF100] \<and>
   hSonyDll (snd (GetLiveViewImageHelper vendor_installed 1 0 (process_start zero_mem))) = 0x7FF000 \<and>
   pGetLiveViewImage (snd (GetLiveViewImageHelper vendor_installed 1 0 (process_start zero_mem))) =
     0x7FF100 \<and>
   fst (GetLiveViewImageHelper vendor_installed 1 0 (process_start zero_mem)) = 0x8001"
  by (simp add: GetLiveViewImageHelper_def forward_call_def vendor_installed_def process_start_def Let_def)

text \<open>
  C3. When the module handle is null and the load fails, the fetch returns \<open>0x8001\<close>; the
  handle is null afterwards, the function pointer, the blocks and the buffers are as they
  were, and the log has the one failed load. A later fetch on the resulting state, on a
  platform where the load and the lookup succeed and with non-null arguments, loads again,
  caches both values, calls the vendor's routine and returns its value.
\<close>

theorem load_failure_not_cached:
  assumes "hSonyDll s = 0" and "LoadLibraryA p ''Cr_Core.dll'' = 0"
    and "GetLiveViewImageHelper p dev h s = (r, s')"
  shows "r = 0x8001 \<and> hSonyDll s' = 0 \<and> pGetLiveViewImage s' = pGetLiveViewImage s \<and>
         blocks s' = blocks s \<and> mem s' = mem s \<and>
         trace s' = trace s @ [EvLoadLibraryA ''Cr_Core.dll'' 0] \<and>
         (\<forall>p' dev' h'.
            LoadLibraryA p' ''Cr_Core.dll'' \<noteq> 0 \<and>
            GetProcAddress p' (LoadLibraryA p' ''Cr_Core.dll'') ''GetLiveViewImage'' \<noteq> 0 \<and>
            dev' \<noteq> 0 \<and> h' \<noteq> 0 \<longrightarrow>
            fst (GetLiveViewImageHelper p' dev' h' s') =
              fst (code_at p' (GetProcAddress p' (LoadLibraryA p' ''Cr_Core.dll'') ''GetLiveViewImage'')
                     dev' h' (blocks s, mem s)) \<and>
            hSonyDll (snd (GetLiveViewImageHelper p' dev' h' s')) = LoadLibraryA p' ''Cr_Core.dll'' \<and>
            pGetLiveViewImage (snd (GetLiveViewImageHelper p' dev' h' s')) =
              GetProcAddress p' (LoadLibraryA p' ''Cr_Core.dll'') ''GetLiveViewImage'' \<and>
            load_attempts (trace (snd (GetLiveViewImageHelper p' dev' h' s'))) =
              load_attempts (trace s') + 1 \<and>
            vendor_calls (trace (snd (GetLiveViewImageHelper p' dev' h' s'))) =
              vendor_calls (trace s') + 1)"
proof -
  from assms have s': "s' = s\<lparr>hSonyDll := 0, trace := trace s @ [EvLoadLibraryA ''Cr_Core.dll'' 0]\<rparr>"
    and r: "r = 0x8001"
    by (simp_all add: fetch_load_failed)
  have later: "hSonyDll s' = 0" and same: "blocks s' = blocks s" "mem s' = mem s"
    using s' by simp_all
  show ?thesis
  proof (intro conjI allI impI)
    fix p' :: platform and dev' h' :: addr
    assume a: "LoadLibraryA p' ''Cr_Core.dll'' \<noteq> 0 \<and>
            GetProcAddress p' (LoadLibraryA p' ''Cr_Core.dll'') ''GetLiveViewImage'' \<noteq> 0 \<and>
            dev' \<noteq> 0 \<and> h' \<noteq> 0"
    let ?m = "LoadLibraryA p' ''Cr_Core.dll''"
    let ?f = "GetProcAddress p' ?m ''GetLiveViewImage''"
    have g: "GetLiveViewImageHelper p' dev' h' s' =
        call_vendor (code_at p' ?f) ?f dev' h'
          (s'\<lparr>hSonyDll := ?m, pGetLiveViewImage := ?f,
                trace := trace s' @ [EvLoadLibraryA ''Cr_Core.dll'' ?m,
                                    EvGetProcAddress ?m ''GetLiveViewImage'' ?f]\<rparr>)"
      using a later by (simp add: fetch_first_bind [where m="?m" and f="?f"] forward_call_bound)
    show "fst (GetLiveViewImageHelper p' dev' h' s') = fst (code_at p' ?f dev' h' (blocks s, mem s))"
      unfolding g by (simp add: call_vendor_fields same)
    show "hSonyDll (snd (GetLiveViewImageHelper p' dev' h' s')) = ?m"
      unfolding g by (simp add: call_vendor_fields)
    show "pGetLiveViewImage (snd (GetLiveViewImageHelper p' dev' h' s')) = ?f"
      unfolding g by (simp add: call_vendor_fields)
    show "load_attempts (trace (snd (GetLiveViewImageHelper p' dev' h' s'))) = load_attempts (trace s') + 1"
      unfolding g by (simp add: call_vendor_fields)
    show "vendor_calls (trace (snd (GetLiveViewImageHelper p' dev' h' s'))) = vendor_calls (trace s') + 1"
      unfolding g by (simp add: call_vendor_fields)
  qed (simp_all add: s' r)
qed

theorem load_failure_not_cached_witness:
  "hSonyDll one_block = 0 \<and> LoadLibraryA vendor_missing ''Cr_Core.dll'' = 0 \<and>
   GetLiveViewImageHelper vendor_missing 1 0x1000 one_block =
     (0x8001, one_block\<lparr>trace := [EvLoadLibraryA ''Cr_Core.dll'' 0]\<rparr>) \<and>
   LoadLibraryA vendor_installed ''Cr_Core.dll'' \<noteq> 0 \<and>
   GetProcAddress vendor_installed (LoadLibraryA vendor_installed ''Cr_Core.dll'') ''GetLiveViewImage'' \<noteq> 0 \<and>
   fst (GetLiveViewImageHelper vendor_installed 1 0x1000
          (one_block\<lparr>trace := [EvLoadLibraryA ''Cr_Core.dll'' 0]\<rparr>)) = 0 \<and>
   hSonyDll (snd (GetLiveViewImageHelper vendor_installed 1 0x1000
          (one_block\<lparr>trace := [EvLoadLibraryA ''Cr_Core.dll'' 0]\<rparr>))) = 0x7FF000"
proof -
  have a: "hSonyDll one_block = 0" by (simp add: one_block_def)
  have b: "LoadLibraryA vendor_missing ''Cr_Core.dll'' = 0" by (simp add: vendor_missing_def)
  have c: "GetLiveViewImageHelper vendor_missing 1 0x1000 one_block =
     (0x8001, one_block\<lparr>trace := [EvLoadLibraryA ''Cr_Core.dll'' 0]\<rparr>)"
    by (simp add: GetLiveViewImageHelper_def one_block_def vendor_missing_def)
  have d: "LoadLibraryA vendor_installed ''Cr_Core.dll'' \<noteq> 0 \<and>
     GetProcAddress vendor_installed (LoadLibraryA vendor_installed ''Cr_Core.dll'') ''GetLiveViewImage'' \<noteq> 0 \<and>
     (1 :: addr) \<noteq> 0 \<and> (0x1000 :: addr) \<noteq> 0"
    by (simp add: vendor_installed_def)
  from load_failure_not_cached [OF a b c] d
  have "fst (GetLiveViewImageHelper vendor_installed 1 0x1000
          (one_block\<lparr>trace := [EvLoadLibraryA ''Cr_Core.dll'' 0]\<rparr>)) =
        fst (code_at vendor_installed
              (GetProcAddress vendor_installed (LoadLibraryA vendor_installed ''Cr_Core.dll'') ''GetLiveViewImage'')
              1 0x1000 (blocks one_block, mem one_block))"
    and "hSonyDll (snd (GetLiveViewImageHelper vendor_installed 1 0x1000
          (one_block\<lparr>trace := [EvLoadLibraryA ''Cr_Core.dll'' 0]\<rparr>))) =
         LoadLibraryA vendor_installed ''Cr_Core.dll''"
    by blast+
  then show ?thesis using a b c d
    by (simp add: vendor_installed_def one_block_def three_byte_frame_def)
qed

text \<open>
  C4. With the module handle set, no sequence of calls of the eight entry points changes
  the handle or attempts a load. If moreover the function pointer is null, a fetch after
  any such sequence returns \<open>0x8001\<close> and changes nothing. That state is the one a fetch
  leaves when the load succeeds and the lookup fails. From the start of a process, any
  sequence of calls holds at most one load that returned a module.
\<close>

theorem module_loaded_once:
  "(hSonyDll s \<noteq> 0 \<longrightarrow>
      hSonyDll (run cs s) = hSonyDll s \<and>
      load_attempts (trace (run cs s)) = load_attempts (trace s)) \<and>
   (hSonyDll s \<noteq> 0 \<and> pGetLiveViewImage s = 0 \<longrightarrow>
      GetLiveViewImageHelper p dev h (run cs s) = (0x8001, run cs s)) \<and>
   (hSonyDll s = 0 \<and> LoadLibraryA p ''Cr_Core.dll'' \<noteq> 0 \<and>
    GetProcAddress p (LoadLibraryA p ''Cr_Core.dll'') ''GetLiveViewImage'' = 0 \<longrightarrow>
      fst (GetLiveViewImageHelper p dev h s) = 0x8001 \<and>
      hSonyDll (snd (GetLiveViewImageHelper p dev h s)) \<noteq> 0 \<and>
      pGetLiveViewImage (snd (GetLiveViewImageHelper p dev h s)) = 0) \<and>
   loads (trace (run cs (process_start m))) \<le> 1"
proof (intro conjI impI)
  assume "hSonyDll s \<noteq> 0"
  then show "hSonyDll (run cs s) = hSonyDll s"
    and "load_attempts (trace (run cs s)) = load_attempts (trace s)"
    using run_cached [of s cs] by simp_all
next
  assume a: "hSonyDll s \<noteq> 0 \<and> pGetLiveViewImage s = 0"
  then have "hSonyDll (run cs s) \<noteq> 0" "pGetLiveViewImage (run cs s) = 0"
    using run_cached [of s cs] by simp_all
  then show "GetLiveViewImageHelper p dev h (run cs s) = (0x8001, run cs s)"
    by (simp add: fetch_cached forward_call_null)
next
  assume a: "hSonyDll s = 0 \<and> LoadLibraryA p ''Cr_Core.dll'' \<noteq> 0 \<and>
    GetProcAddress p (LoadLibraryA p ''Cr_Core.dll'') ''GetLiveViewImage'' = 0"
  then have g: "GetLiveViewImageHelper p dev h s =
      (0x8001, s\<lparr>hSonyDll := LoadLibraryA p ''Cr_Core.dll'', pGetLiveViewImage := 0,
              trace := trace s @ [EvLoadLibraryA ''Cr_Core.dll'' (LoadLibraryA p ''Cr_Core.dll''),
                                  EvGetProcAddress (LoadLibraryA p ''Cr_Core.dll'') ''GetLiveViewImage'' 0]\<rparr>)"
    by (intro fetch_symbol_missing) simp_all
  show "fst (GetLiveViewImageHelper p dev h s) = 0x8001"
    and "hSonyDll (snd (GetLiveViewImageHelper p dev h s)) \<noteq> 0"
    and "pGetLiveViewImage (snd (GetLiveViewImageHelper p dev h s)) = 0"
    using a unfolding g by simp_all
next
  show "loads (trace (run cs (process_start m))) \<le> 1"
    by (rule run_loads_le_1) (simp add: process_start_def)
qed

theorem module_loaded_once_witness:
  "hSonyDll symbol_unresolved \<noteq> 0 \<and> pGetLiveViewImage symbol_unresolved = 0 \<and>
   hSonyDll (run [CallGetLiveView vendor_installed 1 0x1000, CallSetSize 0x1000 64] symbol_unresolved) =
     0x7FF000 \<and>
   load_attempts
     (trace (run [CallGetLiveView vendor_installed 1 0x1000, CallSetSize 0x1000 64] symbol_unresolved)) = 0 \<and>
   fst (GetLiveViewImageHelper vendor_installed 1 0x1000
     (run [CallGetLiveView vendor_installed 1 0x1000, CallSetSize 0x1000 64] symbol_unresolved)) = 0x8001 \<and>
   hSonyDll one_block = 0 \<and> LoadLibraryA symbol_missing ''Cr_Core.dll'' \<noteq> 0 \<and>
   GetProcAddress symbol_missing (LoadLibraryA symbol_missing ''Cr_Core.dll'') ''GetLiveViewImage'' = 0 \<and>
   fst (GetLiveViewImageHelper symbol_missing 1 0x1000 one_block) = 0x8001 \<and>
   hSonyDll (snd (GetLiveViewImageHelper symbol_missing 1 0x1000 one_block)) = 0x7FF000 \<and>
   pGetLiveViewImage (snd (GetLiveViewImageHelper symbol_missing 1 0x1000 one_block)) = 0"
  using module_loaded_once [where s = symbol_unresolved and p = vendor_installed and dev = 1
      and h = "0x1000" and m = zero_mem
      and cs = "[CallGetLiveView vendor_installed 1 0x1000, CallSetSize 0x1000 64]"]
    module_loaded_once [where s = one_block and p = symbol_missing and dev = 1
      and h = "0x1000" and m = zero_mem and cs = "[]"]
  by (simp add: symbol_unresolved_def one_block_def symbol_missing_def vendor_installed_def
      GetLiveViewImageHelper_def forward_call_def SetImageDataBlockSize_def Let_def)

text \<open>
  C5. \<open>CreateImageDataBlock\<close> returns whenever the allocation gives an address. When it
  returns a handle, the handle is that address, the other blocks are untouched, and the
  block there is the one the constructor builds. In \<^verbatim>\<open>SonySDKHelperSimple.cpp\<close> that block
  has \<open>frameNo\<close>, \<open>size\<close>, \<open>imageSize\<close> and \<open>timeCode\<close> zero and \<open>pData\<close> null, and the two
  getters give 0 and null on it. In \<^verbatim>\<open>SonySDKHelper.cpp\<close> the constructor is the vendor's:
  the block is the vendor's fresh object unchanged, so for every vendor whose fresh object
  reads zero through its five getters the new block does too, and the helper's two
  getters give 0 and null on it. With the vendor's class as the spec describes it
  (\<open>mirror_sdk\<close>) the new block has the five fields zero and null.
\<close>

theorem fresh_block_zeroed:
  "CreateImageDataBlock (Some a) s =
     Inr (a, s\<lparr>blocks := (blocks s)(a \<mapsto> ImageDataBlockWrapper_ctor)\<rparr>) \<and>
   (CreateImageDataBlock new s = Inr (h, s') \<longrightarrow>
      new = Some h \<and>
      blocks s' h = Some \<lparr>frameNo = 0, size' = 0, pData = 0, imageSize = 0, timeCode = 0\<rparr> \<and>
      (\<forall>a. a \<noteq> h \<longrightarrow> blocks s' a = blocks s a) \<and>
      (h \<noteq> 0 \<longrightarrow> GetImageDataBlockImageSize h s' = Inr 0 \<and> GetImageDataBlockImageData h s' = Inr 0)) \<and>
   CreateImageDataBlock_sdk v (Some a) t =
     Inr (a, t\<lparr>blocks := (blocks t)(a \<mapsto> CrImageDataBlock_ctor v)\<rparr>) \<and>
   (CreateImageDataBlock_sdk v new_sdk t = Inr (k, t') \<longrightarrow>
      new_sdk = Some k \<and>
      blocks t' k = Some (CrImageDataBlock_ctor v) \<and>
      (\<forall>a. a \<noteq> k \<longrightarrow> blocks t' a = blocks t a)) \<and>
   (CreateImageDataBlock_sdk v new_sdk t = Inr (k, t') \<and>
    GetFrameNo v (CrImageDataBlock_ctor v) = 0 \<and> GetSize v (CrImageDataBlock_ctor v) = 0 \<and>
    GetImageSize v (CrImageDataBlock_ctor v) = 0 \<and> GetTimeCode v (CrImageDataBlock_ctor v) = 0 \<and>
    GetImageData v (CrImageDataBlock_ctor v) = 0 \<longrightarrow>
      (\<exists>b. blocks t' k = Some b \<and> GetFrameNo v b = 0 \<and> GetSize v b = 0 \<and>
           GetImageSize v b = 0 \<and> GetTimeCode v b = 0 \<and> GetImageData v b = 0) \<and>
      (k \<noteq> 0 \<longrightarrow> GetImageDataBlockImageSize_sdk v k t' = Inr 0 \<and>
                GetImageDataBlockImageData_sdk v k t' = Inr 0)) \<and>
   (CreateImageDataBlock_sdk mirror_sdk new_sdk u = Inr (k, u') \<longrightarrow>
      blocks u' k = Some \<lparr>frameNo = 0, size' = 0, pData = 0, imageSize = 0, timeCode = 0\<rparr>)"
  by (auto simp: CreateImageDataBlock_def CreateImageDataBlock_sdk_def ImageDataBlockWrapper_ctor_def
      GetImageDataBlockImageSize_def GetImageDataBlockImageData_def mirror_sdk_def
      GetImageDataBlockImageSize_sdk_def GetImageDataBlockImageData_sdk_def split: option.splits)

theorem fresh_block_zeroed_witness:
  "CreateImageDataBlock (Some 0x1000) (process_start zero_mem) =
     Inr (0x1000, (process_start zero_mem)\<lparr>blocks := [0x1000 \<mapsto> ImageDataBlockWrapper_ctor]\<rparr>) \<and>
   blocks ((process_start zero_mem)\<lparr>blocks := [0x1000 \<mapsto> ImageDataBlockWrapper_ctor]\<rparr>) 0x1000 =
     Some \<lparr>frameNo = 0, size' = 0, pData = 0, imageSize = 0, timeCode = 0\<rparr> \<and>
   GetImageDataBlockImageSize 0x1000
     ((process_start zero_mem)\<lparr>blocks := [0x1000 \<mapsto> ImageDataBlockWrapper_ctor]\<rparr>) = Inr 0 \<and>
   GetImageDataBlockImageData 0x1000
     ((process_start zero_mem)\<lparr>blocks := [0x1000 \<mapsto> ImageDataBlockWrapper_ctor]\<rparr>) = Inr 0 \<and>
   CreateImageDataBlock_sdk mirror_sdk (Some 0x4000) one_block_sdk =
     Inr (0x4000, one_block_sdk\<lparr>blocks := (blocks one_block_sdk)(0x4000 \<mapsto> ImageDataBlockWrapper_ctor)\<rparr>) \<and>
   GetFrameNo mirror_sdk (CrImageDataBlock_ctor mirror_sdk) = 0 \<and>
   GetSize mirror_sdk (CrImageDataBlock_ctor mirror_sdk) = 0 \<and>
   GetImageSize mirror_sdk (CrImageDataBlock_ctor mirror_sdk) = 0 \<and>
   GetTimeCode mirror_sdk (CrImageDataBlock_ctor mirror_sdk) = 0 \<and>
   GetImageData mirror_sdk (CrImageDataBlock_ctor mirror_sdk) = 0 \<and>
   blocks (one_block_sdk\<lparr>blocks := (blocks one_block_sdk)(0x4000 \<mapsto> ImageDataBlockWrapper_ctor)\<rparr>) 0x4000 =
     Some \<lparr>frameNo = 0, size' = 0, pData = 0, imageSize = 0, timeCode = 0\<rparr> \<and>
   GetImageDataBlockImageSize_sdk mirror_sdk 0x4000
     (one_block_sdk\<lparr>blocks := (blocks one_block_sdk)(0x4000 \<mapsto> ImageDataBlockWrapper_ctor)\<rparr>) = Inr 0 \<and>
   GetImageDataBlockImageData_sdk mirror_sdk 0x4000
     (one_block_sdk\<lparr>blocks := (blocks one_block_sdk)(0x4000 \<mapsto> ImageDataBlockWrapper_ctor)\<rparr>) = Inr 0"
proof -
  have z: "GetFrameNo mirror_sdk (CrImageDataBlock_ctor mirror_sdk) = 0"
    "GetSize mirror_sdk (CrImageDataBlock_ctor mirror_sdk) = 0"
    "GetImageSize mirror_sdk (CrImageDataBlock_ctor mirror_sdk) = 0"
    "GetTimeCode mirror_sdk (CrImageDataBlock_ctor mirror_sdk) = 0"
    "GetImageData mirror_sdk (CrImageDataBlock_ctor mirror_sdk) = 0"
    "CrImageDataBlock_ctor mirror_sdk = ImageDataBlockWrapper_ctor"
    by (simp_all add: mirror_sdk_def ImageDataBlockWrapper_ctor_def)
  note T = fresh_block_zeroed [where a = "0x1000" and s = "process_start zero_mem"
      and new = "Some 0x1000" and h = "0x1000"
      and s' = "(process_start zero_mem)\<lparr>blocks := (blocks (process_start zero_mem))(0x1000 \<mapsto> ImageDataBlockWrapper_ctor)\<rparr>"
      and v = mirror_sdk and t = one_block_sdk and u = one_block_sdk
      and u' = "one_block_sdk\<lparr>blocks := (blocks one_block_sdk)(0x4000 \<mapsto> ImageDataBlockWrapper_ctor)\<rparr>"]
  note U = fresh_block_zeroed [where a = "0x4000" and s = "process_start zero_mem"
      and new = "Some 0x4000" and h = "0x4000"
      and s' = "(process_start zero_mem)\<lparr>blocks := (blocks (process_start zero_mem))(0x4000 \<mapsto> ImageDataBlockWrapper_ctor)\<rparr>"
      and v = mirror_sdk and t = one_block_sdk and new_sdk = "Some 0x4000" and k = "0x4000"
      and t' = "one_block_sdk\<lparr>blocks := (blocks one_block_sdk)(0x4000 \<mapsto> ImageDataBlockWrapper_ctor)\<rparr>"
      and u = one_block_sdk
      and u' = "one_block_sdk\<lparr>blocks := (blocks one_block_sdk)(0x4000 \<mapsto> ImageDataBlockWrapper_ctor)\<rparr>"]
  have e: "blocks (process_start zero_mem) = Map.empty" by (simp add: process_start_def)
  from T [where new_sdk = "Some 0x4000" and k = "0x4000"
      and t' = "one_block_sdk\<lparr>blocks := (blocks one_block_sdk)(0x4000 \<mapsto> ImageDataBlockWrapper_ctor)\<rparr>"]
    U z e
  show ?thesis by (simp add: ImageDataBlockWrapper_ctor_def)
qed

text \<open>
  C6. Called with a null block handle, the destroy, the two setters and the copy return
  with the whole state (blocks, buffers, statics, log) as it was, and the two getters
  return 0 and the null pointer; none of them faults. This holds in both builds.
\<close>

theorem null_handle_tolerated:
  "DestroyImageDataBlock 0 s = Inr s \<and>
   SetImageDataBlockSize 0 n s = Inr s \<and>
   SetImageDataBlockData 0 p s = Inr s \<and>
   CopyImageData 0 d n s = Inr s \<and>
   GetImageDataBlockImageSize 0 s = Inr 0 \<and>
   GetImageDataBlockImageData 0 s = Inr 0 \<and>
   DestroyImageDataBlock_sdk 0 t = Inr t \<and>
   SetImageDataBlockSize_sdk v 0 n t = Inr t \<and>
   SetImageDataBlockData_sdk v 0 p t = Inr t \<and>
   CopyImageData_sdk v 0 d n t = Inr t \<and>
   GetImageDataBlockImageSize_sdk v 0 t = Inr 0 \<and>
   GetImageDataBlockImageData_sdk v 0 t = Inr 0"
  by (simp add: DestroyImageDataBlock_def SetImageDataBlockSize_def SetImageDataBlockData_def
      CopyImageData_def GetImageDataBlockImageSize_def GetImageDataBlockImageData_def
      DestroyImageDataBlock_sdk_def SetImageDataBlockSize_sdk_def SetImageDataBlockData_sdk_def
      CopyImageData_sdk_def GetImageDataBlockImageSize_sdk_def GetImageDataBlockImageData_sdk_def)

text \<open>
  C7. For a live block \<open>h\<close>, \<open>SetImageDataBlockSize h n\<close> returns the state in which only
  the \<open>size\<close> field of that block has changed, and on that state both getters return, for
  every handle \<open>a\<close>, what they returned before.
\<close>

theorem set_size_invisible:
  assumes "h \<noteq> 0" and "blocks s h = Some w"
  shows "SetImageDataBlockSize h n s = Inr (s\<lparr>blocks := (blocks s)(h \<mapsto> w\<lparr>size' := n\<rparr>)\<rparr>) \<and>
         GetImageDataBlockImageSize a (s\<lparr>blocks := (blocks s)(h \<mapsto> w\<lparr>size' := n\<rparr>)\<rparr>) =
           GetImageDataBlockImageSize a s \<and>
         GetImageDataBlockImageData a (s\<lparr>blocks := (blocks s)(h \<mapsto> w\<lparr>size' := n\<rparr>)\<rparr>) =
           GetImageDataBlockImageData a s"
  using assms
  by (simp add: SetImageDataBlockSize_def GetImageDataBlockImageSize_def GetImageDataBlockImageData_def)

theorem set_size_invisible_witness:
  "(0x1000 :: addr) \<noteq> 0 \<and>
   blocks one_block 0x1000 =
     Some \<lparr>frameNo = 1, size' = 16, pData = 0x2000, imageSize = 3, timeCode = 0\<rparr> \<and>
   SetImageDataBlockSize 0x1000 64 one_block =
     Inr (one_block\<lparr>blocks := (blocks one_block)(0x1000 \<mapsto>
            \<lparr>frameNo = 1, size' = 64, pData = 0x2000, imageSize = 3, timeCode = 0\<rparr>)\<rparr>) \<and>
   GetImageDataBlockImageSize 0x1000 (one_block\<lparr>blocks := (blocks one_block)(0x1000 \<mapsto>
            \<lparr>frameNo = 1, size' = 64, pData = 0x2000, imageSize = 3, timeCode = 0\<rparr>)\<rparr>) = Inr 3 \<and>
   GetImageDataBlockImageData 0x1000 (one_block\<lparr>blocks := (blocks one_block)(0x1000 \<mapsto>
            \<lparr>frameNo = 1, size' = 64, pData = 0x2000, imageSize = 3, timeCode = 0\<rparr>)\<rparr>) = Inr 0x2000"
  using set_size_invisible [where h = "0x1000" and s = one_block and n = 64 and a = "0x1000"
      and w = "\<lparr>frameNo = 1, size' = 16, pData = 0x2000, imageSize = 3, timeCode = 0\<rparr>"]
  by (simp add: one_block_def GetImageDataBlockImageSize_def GetImageDataBlockImageData_def)

text \<open>
  C8. For a live block \<open>h\<close>, \<open>GetImageDataBlockImageData h\<close> returns the block's \<open>pData\<close>,
  and right after \<open>SetImageDataBlockData h p\<close> it returns \<open>p\<close>, with no fetch in between.
\<close>

theorem get_image_data_returns_pData:
  assumes "h \<noteq> 0" and "blocks s h = Some w"
  shows "GetImageDataBlockImageData h s = Inr (pData w) \<and>
         (\<exists>s'. SetImageDataBlockData h p s = Inr s' \<and> GetImageDataBlockImageData h s' = Inr p)"
  using assms
  by (simp add: SetImageDataBlockData_def GetImageDataBlockImageData_def)

theorem get_image_data_returns_pData_witness:
  "(0x1000 :: addr) \<noteq> 0 \<and>
   blocks one_block 0x1000 =
     Some \<lparr>frameNo = 1, size' = 16, pData = 0x2000, imageSize = 3, timeCode = 0\<rparr> \<and>
   GetImageDataBlockImageData 0x1000 one_block = Inr 0x2000 \<and>
   (\<exists>s'. SetImageDataBlockData 0x1000 0x5000 one_block = Inr s' \<and>
         GetImageDataBlockImageData 0x1000 s' = Inr 0x5000)"
  using get_image_data_returns_pData [where h = "0x1000" and s = one_block and p = "0x5000"
      and w = "\<lparr>frameNo = 1, size' = 16, pData = 0x2000, imageSize = 3, timeCode = 0\<rparr>"]
  by (simp add: one_block_def)

text \<open>
  C9. With both handles non-null and the binding in place (cached, or made by this very
  call), the fetch returns the value of the vendor's routine, found at the bound function
  pointer and run on the current blocks and buffers. In every other case (a null handle,
  a failed load, a failed lookup now or earlier) it returns \<open>0x8001\<close> and the vendor's
  routine is not called. The linked build returns the vendor's value when both handles
  are non-null and \<open>0x8001\<close> otherwise.
\<close>

theorem vendor_result_passed_through:
  "(dev \<noteq> 0 \<and> h \<noteq> 0 \<and> hSonyDll s \<noteq> 0 \<and> pGetLiveViewImage s \<noteq> 0 \<longrightarrow>
      fst (GetLiveViewImageHelper p dev h s) =
        fst (code_at p (pGetLiveViewImage s) dev h (blocks s, mem s))) \<and>
   (dev \<noteq> 0 \<and> h \<noteq> 0 \<and> hSonyDll s = 0 \<and> LoadLibraryA p ''Cr_Core.dll'' \<noteq> 0 \<and>
    GetProcAddress p (LoadLibraryA p ''Cr_Core.dll'') ''GetLiveViewImage'' \<noteq> 0 \<longrightarrow>
      fst (GetLiveViewImageHelper p dev h s) =
        fst (code_at p (GetProcAddress p (LoadLibraryA p ''Cr_Core.dll'') ''GetLiveViewImage'')
               dev h (blocks s, mem s))) \<and>
   (dev = 0 \<or> h = 0 \<or> (hSonyDll s \<noteq> 0 \<and> pGetLiveViewImage s = 0) \<or>
    (hSonyDll s = 0 \<and>
       (LoadLibraryA p ''Cr_Core.dll'' = 0 \<or>
        GetProcAddress p (LoadLibraryA p ''Cr_Core.dll'') ''GetLiveViewImage'' = 0)) \<longrightarrow>
      fst (GetLiveViewImageHelper p dev h s) = 0x8001 \<and>
      vendor_calls (trace (snd (GetLiveViewImageHelper p dev h s))) = vendor_calls (trace s)) \<and>
   (dev \<noteq> 0 \<and> h \<noteq> 0 \<longrightarrow>
      fst (GetLiveViewImageHelper_sdk v dev h t) = fst (GetLiveViewImage v dev h (blocks t, mem t))) \<and>
   (dev = 0 \<or> h = 0 \<longrightarrow> GetLiveViewImageHelper_sdk v dev h t = (0x8001, t))"
  by (auto simp: GetLiveViewImageHelper_def GetLiveViewImageHelper_sdk_def forward_call_def
      call_vendor_fields Let_def split: prod.splits)

theorem vendor_result_passed_through_witness:
  "(1 :: addr) \<noteq> 0 \<and> (0x1000 :: addr) \<noteq> 0 \<and>
   hSonyDll vendor_bound \<noteq> 0 \<and> pGetLiveViewImage vendor_bound \<noteq> 0 \<and>
   fst (GetLiveViewImageHelper vendor_installed 1 0x1000 vendor_bound) = 0 \<and>
   hSonyDll one_block = 0 \<and>
   fst (GetLiveViewImageHelper vendor_installed 1 0x1000 one_block) = 0 \<and>
   fst (GetLiveViewImageHelper vendor_installed 1 0x1001 one_block) = 0x8001 \<and>
   fst (GetLiveViewImageHelper symbol_missing 1 0x1000 one_block) = 0x8001 \<and>
   fst (GetLiveViewImageHelper vendor_installed 1 0x1000 symbol_unresolved) = 0x8001 \<and>
   fst (GetLiveViewImageHelper_sdk mirror_sdk 1 0x1000 one_block_sdk) = 0 \<and>
   GetLiveViewImageHelper_sdk mirror_sdk 0 0x1000 one_block_sdk = (0x8001, one_block_sdk)"
  using vendor_result_passed_through [where dev = 1 and h = "0x1000" and s = vendor_bound
      and p = vendor_installed and v = mirror_sdk and t = one_block_sdk]
    vendor_result_passed_through [where dev = 1 and h = "0x1000" and s = one_block
      and p = vendor_installed and v = mirror_sdk and t = one_block_sdk]
    vendor_result_passed_through [where dev = 1 and h = "0x1001" and s = one_block
      and p = vendor_installed and v = mirror_sdk and t = one_block_sdk]
    vendor_result_passed_through [where dev = 1 and h = "0x1000" and s = one_block
      and p = symbol_missing and v = mirror_sdk and t = one_block_sdk]
    vendor_result_passed_through [where dev = 1 and h = "0x1000" and s = symbol_unresolved
      and p = vendor_installed and v = mirror_sdk and t = one_block_sdk]
    vendor_result_passed_through [where dev = 0 and h = "0x1000" and s = symbol_unresolved
      and p = vendor_installed and v = mirror_sdk and t = one_block_sdk]
  by (simp add: vendor_bound_def symbol_unresolved_def one_block_def one_block_sdk_def
      vendor_installed_def symbol_missing_def mirror_sdk_def three_byte_frame_def)

text \<open>
  C10. With a null destination, \<open>CopyImageData\<close> returns the state as it was for every
  handle (null, live or dangling: the block is not even read) and every capacity, in both
  builds.
\<close>

theorem null_destination_ignored:
  "CopyImageData h 0 n s = Inr s \<and> CopyImageData_sdk v h 0 n t = Inr t"
  by (simp add: CopyImageData_def CopyImageData_sdk_def)

end
